theory Spec2Isabelle
  imports Main "HOL-Library.Word"
begin

section \<open>Strings of the host language\<close>

text \<open>
  A string of the source is a sequence of UTF-16 code units. \<open>lit\<close> embeds the
  ASCII literals of the source text.
\<close>

type_synonym jsstring = "16 word list"

definition lit :: "string \<Rightarrow> jsstring" where
  "lit cs = map of_char cs"

text \<open>
  \<open>String.prototype.trim\<close> strips white space and line terminators from both ends:
  TAB, LF, VT, FF, CR, SP, NBSP, the Unicode space separators, LS, PS and the BOM.
\<close>

definition isWhiteSpace :: "16 word \<Rightarrow> bool" where
  "isWhiteSpace c \<longleftrightarrow>
     c \<in> set [0x0009, 0x000A, 0x000B, 0x000C, 0x000D, 0x0020, 0x00A0, 0x1680,
              0x2000, 0x2001, 0x2002, 0x2003, 0x2004, 0x2005, 0x2006, 0x2007,
              0x2008, 0x2009, 0x200A, 0x2028, 0x2029, 0x202F, 0x205F, 0x3000,
              0xFEFF]"

definition trim :: "jsstring \<Rightarrow> jsstring" where
  "trim s = rev (dropWhile isWhiteSpace (rev (dropWhile isWhiteSpace s)))"

text \<open>
  \<open>Date.now().toString()\<close>: the clock reading is an integer number of milliseconds
  (of magnitude below \<open>10^21\<close>), which \<open>toString\<close> prints in decimal, with a minus
  sign when it is negative.
\<close>

fun digits :: "nat \<Rightarrow> jsstring" where
  "digits n =
     (if n < 10 then [of_nat (48 + n)]
      else digits (n div 10) @ [of_nat (48 + n mod 10)])"

declare digits.simps [simp del]

definition toString :: "int \<Rightarrow> jsstring" where
  "toString i = (if i < 0 then 0x2D # digits (nat (- i)) else digits (nat i))"

section \<open>The state of the App component\<close>

text \<open>Each todo: \<open>{ id: string, title: string, completed: boolean }\<close>.\<close>

record todo =
  id' :: jsstring
  title :: jsstring
  completed :: bool

text \<open>The filter is one of the literals \<open>'all'\<close>, \<open>'completed'\<close>, \<open>'uncompleted'\<close>.\<close>

datatype filter_kind = All | Completed | Uncompleted

text \<open>
  The five \<open>useState\<close> cells of the component. \<open>editingId\<close> is \<open>null\<close> (here
  \<open>None\<close>) when no task is being edited.
\<close>

record state =
  todos :: "todo list"
  inputText :: jsstring
  editingId :: "jsstring option"
  editText :: jsstring
  filter' :: filter_kind

definition initial :: state where
  "initial =
     \<lparr> todos =
         [ \<lparr> id' = lit ''1'', title = lit ''wash dishes'', completed = False \<rparr>,
           \<lparr> id' = lit ''2'', title = lit ''edit-resume'', completed = False \<rparr>,
           \<lparr> id' = lit ''3'', title = lit ''finish Codedex course'', completed = False \<rparr>,
           \<lparr> id' = lit ''4'', title = lit ''Then sleep'', completed = False \<rparr> ],
       inputText = [],
       editingId = None,
       editText = [],
       filter' = All \<rparr>"

section \<open>Task operations\<close>

text \<open>
  Every handler runs to completion inside one event, so its state updates are
  applied together: a handler is a function from the state it was rendered with to the
  next state. \<open>addTodo\<close> also reads the clock; the reading is its first argument.
\<close>

definition setInputText :: "jsstring \<Rightarrow> state \<Rightarrow> state" where
  "setInputText t s = s\<lparr>inputText := t\<rparr>"

definition setEditText :: "jsstring \<Rightarrow> state \<Rightarrow> state" where
  "setEditText t s = s\<lparr>editText := t\<rparr>"

definition setFilter :: "filter_kind \<Rightarrow> state \<Rightarrow> state" where
  "setFilter f s = s\<lparr>filter' := f\<rparr>"

definition addTodo :: "int \<Rightarrow> state \<Rightarrow> state" where
  "addTodo now s =
     (if length (trim (inputText s)) = 0 then s
      else
        let newTodo = \<lparr> id' = toString now, title = inputText s, completed = False \<rparr>
        in s\<lparr>todos := newTodo # todos s, inputText := []\<rparr>)"

definition toggleTodo :: "jsstring \<Rightarrow> state \<Rightarrow> state" where
  "toggleTodo i s =
     s\<lparr>todos :=
         map (\<lambda>todo. if id' todo = i then todo\<lparr>completed := \<not> completed todo\<rparr> else todo)
           (todos s)\<rparr>"

definition deleteTodo :: "jsstring \<Rightarrow> state \<Rightarrow> state" where
  "deleteTodo i s =
     (let s' = s\<lparr>todos := filter (\<lambda>todo. id' todo \<noteq> i) (todos s)\<rparr>
      in if editingId s = Some i then s'\<lparr>editingId := None, editText := []\<rparr> else s')"

definition startEditing :: "jsstring \<Rightarrow> jsstring \<Rightarrow> state \<Rightarrow> state" where
  "startEditing i t s = s\<lparr>editingId := Some i, editText := t\<rparr>"

definition saveEdit :: "state \<Rightarrow> state" where
  "saveEdit s =
     (if length (trim (editText s)) = 0 then s
      else
        s\<lparr>todos :=
            map (\<lambda>todo. if Some (id' todo) = editingId s then todo\<lparr>title := editText s\<rparr>
                        else todo)
              (todos s),
          editingId := None,
          editText := []\<rparr>)"

definition cancelEdit :: "state \<Rightarrow> state" where
  "cancelEdit s = s\<lparr>editingId := None, editText := []\<rparr>"

section \<open>Helper functions\<close>

record stats =
  total :: int
  completed' :: int
  uncompleted :: int

definition getStats :: "state \<Rightarrow> stats" where
  "getStats s =
     (let total = int (length (todos s));
          completed = int (length (filter (\<lambda>t. completed t) (todos s)));
          uncompleted = total - completed
      in \<lparr> total = total, completed' = completed, uncompleted = uncompleted \<rparr>)"

definition getFilteredTodos :: "state \<Rightarrow> todo list" where
  "getFilteredTodos s =
     (case filter' s of
        Completed \<Rightarrow> filter (\<lambda>todo. completed todo) (todos s)
      | Uncompleted \<Rightarrow> filter (\<lambda>todo. \<not> completed todo) (todos s)
      | All \<Rightarrow> todos s)"

section \<open>User gestures\<close>

text \<open>
  The gestures the rendered screen wires to the handlers. The toggle, edit and delete
  buttons of a row pass the row's own \<open>item.id\<close> (and \<open>item.title\<close>), so
  \<open>startEditing\<close> is offered only for a task of the list; the other handlers are
  allowed at any time and with any argument, which covers what the screen offers.
\<close>

datatype event =
    SetInputText jsstring
  | AddTodo int
  | ToggleTodo jsstring
  | DeleteTodo jsstring
  | StartEditing jsstring jsstring
  | SetEditText jsstring
  | SaveEdit
  | CancelEdit
  | SetFilter filter_kind

fun handle :: "event \<Rightarrow> state \<Rightarrow> state" where
  "handle (SetInputText t) s = setInputText t s"
| "handle (AddTodo now) s = addTodo now s"
| "handle (ToggleTodo i) s = toggleTodo i s"
| "handle (DeleteTodo i) s = deleteTodo i s"
| "handle (StartEditing i t) s = startEditing i t s"
| "handle (SetEditText t) s = setEditText t s"
| "handle SaveEdit s = saveEdit s"
| "handle CancelEdit s = cancelEdit s"
| "handle (SetFilter f) s = setFilter f s"

fun offered :: "state \<Rightarrow> event \<Rightarrow> bool" where
  "offered s (StartEditing i t) =
     list_ex (\<lambda>item. id' item = i \<and> title item = t) (todos s)"
| "offered s _ = True"

fun run :: "event list \<Rightarrow> state \<Rightarrow> state" where
  "run [] s = s"
| "run (e # es) s = run es (handle e s)"

fun feasible :: "event list \<Rightarrow> state \<Rightarrow> bool" where
  "feasible [] s = True"
| "feasible (e # es) s = (offered s e \<and> feasible es (handle e s))"



text \<open>
  The edit target is present: when \<open>editingId\<close> holds an id, a task of the list has
  that id.
\<close>

definition edit_target_present :: "state \<Rightarrow> bool" where
  "edit_target_present s =
     (case editingId s of None \<Rightarrow> True | Some i \<Rightarrow> i \<in> set (map id' (todos s)))"

section \<open>Evaluation of strings\<close>

lemma trim_Nil [simp]: "trim [] = []"
  by (simp add: trim_def)

lemma digits_small: "n < 10 \<Longrightarrow> digits n = [of_nat (48 + n)]"
  by (subst digits.simps) simp

lemma digits_big: "10 \<le> n \<Longrightarrow> digits n = digits (n div 10) @ [of_nat (48 + n mod 10)]"
  by (subst digits.simps) simp

lemmas string_eval = lit_def trim_def isWhiteSpace_def toString_def digits_small digits_big

section \<open>The seeded list\<close>

text \<open>
  C10: before any user action the list holds exactly four seeded tasks, with ids
  \<open>"1"\<close> to \<open>"4"\<close>, none of them completed, so the total starts at 4.
\<close>

theorem initial_seeded:
  "map id' (todos initial) = [lit ''1'', lit ''2'', lit ''3'', lit ''4'']
   \<and> map completed (todos initial) = [False, False, False, False]
   \<and> map title (todos initial) =
       [lit ''wash dishes'', lit ''edit-resume'', lit ''finish Codedex course'',
        lit ''Then sleep'']
   \<and> total (getStats initial) = 4
   \<and> inputText initial = [] \<and> editingId initial = None \<and> editText initial = []
   \<and> filter' initial = All"
  by (simp add: initial_def getStats_def)

section \<open>Adding a task\<close>

text \<open>
  C1: when the trimmed input text is not empty, \<open>addTodo\<close> puts in front of the list a
  new task whose title is the input text as typed (not trimmed) and whose \<open>completed\<close>
  flag is false, and clears the input text; nothing else changes. When the trimmed
  input text is empty, \<open>addTodo\<close> leaves the whole state as it was.
\<close>

theorem addTodo_spec:
  "(trim (inputText s) \<noteq> [] \<longrightarrow>
      addTodo now s =
        s\<lparr>todos := \<lparr> id' = toString now, title = inputText s, completed = False \<rparr> # todos s,
          inputText := []\<rparr>)
   \<and> (trim (inputText s) = [] \<longrightarrow> addTodo now s = s)"
  by (simp add: addTodo_def)

theorem addTodo_spec_witness:
  "trim (lit ''  buy milk '') \<noteq> []
   \<and> todos (addTodo 1700000000000 (setInputText (lit ''  buy milk '') initial)) =
       \<lparr> id' = lit ''1700000000000'', title = lit ''  buy milk '', completed = False \<rparr>
         # todos initial
   \<and> inputText (addTodo 1700000000000 (setInputText (lit ''  buy milk '') initial)) = []
   \<and> trim (lit ''   '') = []
   \<and> addTodo 1700000000000 (setInputText (lit ''   '') initial) =
       setInputText (lit ''   '') initial
   \<and> addTodo 1700000000000 initial = initial"
  using addTodo_spec [of "setInputText (lit ''  buy milk '') initial" 1700000000000]
    addTodo_spec [of "setInputText (lit ''   '') initial" 1700000000000]
    addTodo_spec [of initial 1700000000000]
  by (simp add: setInputText_def initial_def string_eval)

section \<open>Saving an edit\<close>





text \<open>
  C4: \<open>saveEdit\<close> called while a task is being edited and the trimmed draft is empty
  saves nothing and stays in edit mode: the state is returned as it was, so every title
  is unchanged and \<open>editingId\<close> still holds the same task id.
\<close>

theorem saveEdit_blank_draft:
  "editingId s = Some i \<Longrightarrow> trim (editText s) = [] \<Longrightarrow>
     saveEdit s = s \<and> editingId (saveEdit s) = Some i
     \<and> map title (todos (saveEdit s)) = map title (todos s)"
  by (simp add: saveEdit_def)

theorem saveEdit_blank_draft_witness:
  "editingId (setEditText [] (startEditing (lit ''1'') (lit ''wash dishes'') initial))
     = Some (lit ''1'')
   \<and> trim (editText (setEditText [] (startEditing (lit ''1'') (lit ''wash dishes'') initial)))
     = []
   \<and> editingId (saveEdit (setEditText [] (startEditing (lit ''1'') (lit ''wash dishes'') initial)))
     = Some (lit ''1'')
   \<and> map title
       (todos (saveEdit (setEditText [] (startEditing (lit ''1'') (lit ''wash dishes'') initial))))
     = map title (todos initial)"
  using saveEdit_blank_draft
    [of "setEditText [] (startEditing (lit ''1'') (lit ''wash dishes'') initial)" "lit ''1''"]
  by (simp add: setEditText_def startEditing_def)

section \<open>Toggling a task\<close>

lemma toggle_twice:
  "map (\<lambda>todo. if id' todo = i then todo\<lparr>completed := \<not> completed todo\<rparr> else todo)
     (map (\<lambda>todo. if id' todo = i then todo\<lparr>completed := \<not> completed todo\<rparr> else todo) xs) = xs"
  by (induction xs) auto

text \<open>
  C6: toggling the same id twice gives back the state it started from, so every task
  has its original \<open>completed\<close> value again; one toggle keeps the order, the ids and
  the titles of the tasks, and flips \<open>completed\<close> exactly on the tasks with that id.
\<close>

theorem toggleTodo_involution:
  "toggleTodo i (toggleTodo i s) = s
   \<and> map id' (todos (toggleTodo i s)) = map id' (todos s)
   \<and> map title (todos (toggleTodo i s)) = map title (todos s)
   \<and> map completed (todos (toggleTodo i s)) =
       map (\<lambda>todo. if id' todo = i then \<not> completed todo else completed todo) (todos s)"
  by (simp add: toggleTodo_def toggle_twice comp_def if_distrib cong: if_cong)

section \<open>Deleting a task\<close>

lemma ids_toggleTodo: "map id' (todos (toggleTodo i s)) = map id' (todos s)"
  by (simp add: toggleTodo_def comp_def if_distrib cong: if_cong)

lemma ids_saveEdit: "map id' (todos (saveEdit s)) = map id' (todos s)"
  by (simp add: saveEdit_def comp_def if_distrib cong: if_cong)

lemma ids_deleteTodo:
  "map id' (todos (deleteTodo i s)) = filter (\<lambda>j. j \<noteq> i) (map id' (todos s))"
  by (simp add: deleteTodo_def Let_def filter_map comp_def)

text \<open>
  C7: \<open>deleteTodo\<close> is idempotent: after \<open>deleteTodo i\<close> no task has the id \<open>i\<close> and
  a second \<open>deleteTodo i\<close> changes nothing. For an id that no task has, \<open>toggleTodo\<close>
  returns the state as it was, and so does \<open>deleteTodo\<close> on a state whose edit target
  is present; no handler has a failure branch.
\<close>

theorem deleteTodo_idempotent:
  "deleteTodo i (deleteTodo i s) = deleteTodo i s
   \<and> i \<notin> set (map id' (todos (deleteTodo i s)))
   \<and> (i \<notin> set (map id' (todos s)) \<longrightarrow> toggleTodo i s = s)
   \<and> (i \<notin> set (map id' (todos s)) \<longrightarrow> edit_target_present s \<longrightarrow> deleteTodo i s = s)"
proof -
  have twice: "deleteTodo i (deleteTodo i s) = deleteTodo i s"
    by (simp add: deleteTodo_def Let_def)
  have gone: "i \<notin> set (map id' (todos (deleteTodo i s)))"
    by (auto simp: deleteTodo_def Let_def)
  have keep: "filter (\<lambda>todo. id' todo \<noteq> i) (todos s) = todos s"
    if "i \<notin> set (map id' (todos s))"
    using that by (auto simp: filter_id_conv)
  have same: "map (\<lambda>todo. if id' todo = i then todo\<lparr>completed := \<not> completed todo\<rparr> else todo)
      (todos s) = todos s" if "i \<notin> set (map id' (todos s))"
    using that by (intro map_idI) auto
  have tog: "toggleTodo i s = s" if "i \<notin> set (map id' (todos s))"
    using same [OF that] by (simp add: toggleTodo_def)
  have del: "deleteTodo i s = s"
    if "i \<notin> set (map id' (todos s))" and "edit_target_present s"
  proof -
    from that have "editingId s \<noteq> Some i"
      by (auto simp: edit_target_present_def)
    with keep [OF that(1)] show ?thesis
      by (simp add: deleteTodo_def Let_def)
  qed
  from twice gone tog del show ?thesis by blast
qed

theorem deleteTodo_idempotent_witness:
  "lit ''9'' \<notin> set (map id' (todos initial))
   \<and> edit_target_present initial
   \<and> toggleTodo (lit ''9'') initial = initial
   \<and> deleteTodo (lit ''9'') initial = initial
   \<and> lit ''1'' \<notin> set (map id' (todos (deleteTodo (lit ''1'') initial)))
   \<and> edit_target_present (deleteTodo (lit ''1'') initial)
   \<and> deleteTodo (lit ''1'') (deleteTodo (lit ''1'') initial) = deleteTodo (lit ''1'') initial"
  using deleteTodo_idempotent [of "lit ''9''" initial]
    deleteTodo_idempotent [of "lit ''1''" initial]
    deleteTodo_idempotent [of "lit ''1''" "deleteTodo (lit ''1'') initial"]
  by (simp add: initial_def edit_target_present_def deleteTodo_def lit_def)

section \<open>Counters and the visible list\<close>

text \<open>
  C8: in every state, and so after every run of gestures from the initial state, the
  counters of \<open>getStats\<close> satisfy \<open>completed + uncompleted = total\<close>, where \<open>total\<close> is
  the number of tasks, \<open>completed\<close> the number of tasks with \<open>completed = true\<close> and
  \<open>uncompleted\<close> the number of the others.
\<close>

theorem getStats_sum:
  "completed' (getStats s) + uncompleted (getStats s) = total (getStats s)
   \<and> total (getStats s) = int (length (todos s))
   \<and> completed' (getStats s) = int (length (filter (\<lambda>t. completed t) (todos s)))
   \<and> uncompleted (getStats s) = int (length (filter (\<lambda>t. \<not> completed t) (todos s)))
   \<and> completed' (getStats (run es initial)) + uncompleted (getStats (run es initial))
       = total (getStats (run es initial))"
proof -
  have "length (filter (\<lambda>t. completed t) (todos s))
        + length (filter (\<lambda>t. \<not> completed t) (todos s)) = length (todos s)"
    by (rule sum_length_filter_compl)
  then have "int (length (todos s)) - int (length (filter (\<lambda>t. completed t) (todos s)))
      = int (length (filter (\<lambda>t. \<not> completed t) (todos s)))"
    by linarith
  then show ?thesis by (simp add: getStats_def Let_def)
qed

text \<open>
  C9: the visible list \<open>getFilteredTodos\<close> is the whole list, in its order, when the
  filter is \<open>all\<close>; the tasks with \<open>completed = true\<close>, in the order of the list, when
  the filter is \<open>completed\<close>; and the tasks with \<open>completed = false\<close>, in the order of
  the list, when the filter is \<open>uncompleted\<close>.
\<close>

theorem getFilteredTodos_spec:
  "(filter' s = All \<longrightarrow> getFilteredTodos s = todos s)
   \<and> (filter' s = Completed \<longrightarrow>
        getFilteredTodos s = filter (\<lambda>todo. completed todo = True) (todos s))
   \<and> (filter' s = Uncompleted \<longrightarrow>
        getFilteredTodos s = filter (\<lambda>todo. completed todo = False) (todos s))"
  by (simp add: getFilteredTodos_def)

theorem getFilteredTodos_spec_witness:
  "filter' initial = All
   \<and> getFilteredTodos initial = todos initial
   \<and> filter' (setFilter Completed (toggleTodo (lit ''2'') initial)) = Completed
   \<and> map id' (getFilteredTodos (setFilter Completed (toggleTodo (lit ''2'') initial)))
       = [lit ''2'']
   \<and> filter' (setFilter Uncompleted (toggleTodo (lit ''2'') initial)) = Uncompleted
   \<and> map id' (getFilteredTodos (setFilter Uncompleted (toggleTodo (lit ''2'') initial)))
       = [lit ''1'', lit ''3'', lit ''4'']"
  using getFilteredTodos_spec [of initial]
    getFilteredTodos_spec [of "setFilter Completed (toggleTodo (lit ''2'') initial)"]
    getFilteredTodos_spec [of "setFilter Uncompleted (toggleTodo (lit ''2'') initial)"]
  by (simp add: initial_def setFilter_def toggleTodo_def lit_def)

section \<open>The edit target\<close>

lemma present_iff:
  "edit_target_present s \<longleftrightarrow> (\<forall>i. editingId s = Some i \<longrightarrow> i \<in> set (map id' (todos s)))"
  by (simp add: edit_target_present_def split: option.splits)

lemma editingId_toggleTodo: "editingId (toggleTodo i s) = editingId s"
  by (simp add: toggleTodo_def)

lemma editingId_deleteTodo:
  "editingId (deleteTodo i s) = (if editingId s = Some i then None else editingId s)"
  by (simp add: deleteTodo_def Let_def)

lemma editingId_saveEdit:
  "editingId (saveEdit s) = (if trim (editText s) = [] then editingId s else None)"
  by (simp add: saveEdit_def)

lemma present_handle:
  assumes "edit_target_present s" and "offered s e"
  shows "edit_target_present (handle e s)"
proof (cases e)
  case (AddTodo now)
  with assms(1) show ?thesis
    by (auto simp: present_iff addTodo_def Let_def)
next
  case (ToggleTodo i)
  with assms(1) show ?thesis
    by (simp add: present_iff ids_toggleTodo editingId_toggleTodo)
next
  case (DeleteTodo i)
  with assms(1) show ?thesis
    by (auto simp: present_iff ids_deleteTodo editingId_deleteTodo)
next
  case (StartEditing i t)
  with assms(2) show ?thesis
    by (auto simp: present_iff startEditing_def list_ex_iff)
next
  case SaveEdit
  with assms(1) show ?thesis
    by (simp add: present_iff ids_saveEdit editingId_saveEdit)
qed (use assms(1) in \<open>simp_all add: present_iff setInputText_def setEditText_def
      cancelEdit_def setFilter_def\<close>)

lemma present_run:
  "feasible es s \<Longrightarrow> edit_target_present s \<Longrightarrow> edit_target_present (run es s)"
proof (induction es arbitrary: s)
  case Nil
  then show ?case by simp
next
  case (Cons e es)
  from Cons.prems have "edit_target_present (handle e s)" and "feasible es (handle e s)"
    by (simp_all add: present_handle)
  then show ?case by (simp add: Cons.IH)
qed

lemma present_initial: "edit_target_present initial"
  by (simp add: edit_target_present_def initial_def)

text \<open>
  C5: in every state reached from the initial state by gestures the screen offers, when
  \<open>editingId\<close> holds an id a task of the list has that id. In particular
  \<open>deleteTodo i\<close> on a state with \<open>editingId = i\<close> removes the task and, in the same
  step, sets \<open>editingId\<close> to \<open>null\<close> and the draft to the empty string.
\<close>

theorem edit_target_kept:
  "(feasible es initial \<longrightarrow> edit_target_present (run es initial))
   \<and> (editingId s = Some i \<longrightarrow>
        editingId (deleteTodo i s) = None \<and> editText (deleteTodo i s) = []
        \<and> i \<notin> set (map id' (todos (deleteTodo i s))))"
  by (auto simp: present_run present_initial ids_deleteTodo) (simp_all add: deleteTodo_def Let_def)

theorem edit_target_kept_witness:
  "feasible [StartEditing (lit ''1'') (lit ''wash dishes'')] initial
   \<and> editingId (run [StartEditing (lit ''1'') (lit ''wash dishes'')] initial) = Some (lit ''1'')
   \<and> edit_target_present (run [StartEditing (lit ''1'') (lit ''wash dishes'')] initial)
   \<and> editingId (deleteTodo (lit ''1'')
        (run [StartEditing (lit ''1'') (lit ''wash dishes'')] initial)) = None
   \<and> editText (deleteTodo (lit ''1'')
        (run [StartEditing (lit ''1'') (lit ''wash dishes'')] initial)) = []
   \<and> map id' (todos (deleteTodo (lit ''1'')
        (run [StartEditing (lit ''1'') (lit ''wash dishes'')] initial)))
       = [lit ''2'', lit ''3'', lit ''4'']"
  using edit_target_kept [of "[StartEditing (lit ''1'') (lit ''wash dishes'')]"
      "run [StartEditing (lit ''1'') (lit ''wash dishes'')] initial" "lit ''1''"]
  by (simp add: initial_def startEditing_def deleteTodo_def lit_def)

section \<open>Ids of the tasks\<close>

text \<open>
  A handler keeps the ids of the list distinct, provided an \<open>addTodo\<close> reads a clock
  value whose decimal string is not yet an id of the list.
\<close>

lemma distinct_ids_handle:
  assumes "distinct (map id' (todos s))"
    and "\<And>now. e = AddTodo now \<Longrightarrow> toString now \<notin> set (map id' (todos s))"
  shows "distinct (map id' (todos (handle e s)))"
proof (cases e)
  case (AddTodo now)
  with assms show ?thesis by (auto simp: addTodo_def Let_def)
qed (use assms(1) in \<open>simp_all add: ids_toggleTodo ids_saveEdit ids_deleteTodo setInputText_def
      setEditText_def cancelEdit_def setFilter_def startEditing_def\<close>)

text \<open>
  C3 claims that no two tasks of a reachable state share an id. The id of a new task is
  the clock reading \<open>Date.now()\<close> printed in decimal, and nothing compares it with the
  ids of the list: two tasks added at the same clock reading, here 1700000000000, get
  the same id, and the list reached holds that id twice.
\<close>

theorem addTodo_same_clock_reading:
  "feasible [SetInputText (lit ''a''), AddTodo 1700000000000,
             SetInputText (lit ''b''), AddTodo 1700000000000] initial
   \<and> map id' (todos (run [SetInputText (lit ''a''), AddTodo 1700000000000,
                           SetInputText (lit ''b''), AddTodo 1700000000000] initial))
       = [lit ''1700000000000'', lit ''1700000000000'', lit ''1'', lit ''2'', lit ''3'',
          lit ''4'']
   \<and> map title (todos (run [SetInputText (lit ''a''), AddTodo 1700000000000,
                           SetInputText (lit ''b''), AddTodo 1700000000000] initial))
       = [lit ''b'', lit ''a'', lit ''wash dishes'', lit ''edit-resume'',
          lit ''finish Codedex course'', lit ''Then sleep'']
   \<and> \<not> distinct (map id' (todos (run [SetInputText (lit ''a''), AddTodo 1700000000000,
                           SetInputText (lit ''b''), AddTodo 1700000000000] initial)))"
  by (simp add: initial_def setInputText_def addTodo_def string_eval)

end
